theory Spec2Isabelle
  imports Main
begin

section \<open>Strings and integers of the host language\<close>

text \<open>
  A \<open>string\<close> is a list of 8-bit characters, read as the code points U+0000..U+00FF of
  a Python \<open>str\<close>. On that range \<open>str.strip\<close>, \<open>int\<close> and \<open>str\<close> below are
  Python's. The emoji of the bot's fixed texts lie outside that range; they are written
  as their UTF-8 bytes, and no operation of the program looks inside them.
\<close>

definition is_space :: "char \<Rightarrow> bool" where
  "is_space c =
     (let n = (of_char c :: int)
      in (9 \<le> n \<and> n \<le> 13) \<or> (28 \<le> n \<and> n \<le> 32) \<or> n = 133 \<or> n = 160)"

definition is_digit :: "char \<Rightarrow> bool" where
  "is_digit c = (let n = (of_char c :: int) in 48 \<le> n \<and> n \<le> 57)"

definition digit_val :: "char \<Rightarrow> int" where
  "digit_val c = of_char c - 48"

definition strip :: "string \<Rightarrow> string" where
  \<comment> \<open>\<open>s.strip()\<close>: leading and trailing whitespace removed.\<close>
  "strip s = rev (dropWhile is_space (rev (dropWhile is_space s)))"

definition startswith :: "string \<Rightarrow> string \<Rightarrow> bool" where
  \<comment> \<open>\<open>s.startswith(p)\<close>\<close>
  "startswith s p = (take (length p) s = p)"

fun contains :: "string \<Rightarrow> string \<Rightarrow> bool" where
  \<comment> \<open>\<open>p in s\<close> for two strings\<close>
  "contains [] p = (p = [])"
| "contains (c # cs) p = (startswith (c # cs) p \<or> contains cs p)"

fun digits_value :: "string \<Rightarrow> int \<Rightarrow> int option" where
  \<comment> \<open>decimal digits, a single underscore allowed between two digits\<close>
  "digits_value [] acc = Some acc"
| "digits_value (c # cs) acc =
     (if is_digit c then digits_value cs (acc * 10 + digit_val c)
      else if c = CHR ''_'' then
        (case cs of
           [] \<Rightarrow> None
         | d # ds \<Rightarrow> if is_digit d then digits_value cs acc else None)
      else None)"

definition unsigned_value :: "string \<Rightarrow> int option" where
  \<comment> \<open>the digits after the sign: the first character is a digit\<close>
  "unsigned_value s =
     (case s of
        [] \<Rightarrow> None
      | c # cs \<Rightarrow> if is_digit c then digits_value s 0 else None)"

definition py_int :: "string \<Rightarrow> int option" where
  \<comment> \<open>\<open>int(s)\<close> in base 10; \<open>None\<close> is the \<open>ValueError\<close>.\<close>
  "py_int s =
     (case strip s of
        [] \<Rightarrow> None
      | c # cs \<Rightarrow>
          if c = CHR ''-'' then map_option uminus (unsigned_value cs)
          else if c = CHR ''+'' then unsigned_value cs
          else unsigned_value (c # cs))"

function str_digits :: "int \<Rightarrow> string" where
  \<comment> \<open>the decimal digits of a number that is not negative\<close>
  "str_digits n =
     (if n < 10 then [char_of (48 + n)]
      else str_digits (n div 10) @ [char_of (48 + n mod 10)])"
  by pat_completeness auto
termination
  by (relation "measure nat") auto

declare str_digits.simps [simp del]

definition str_int :: "int \<Rightarrow> string" where
  \<comment> \<open>\<open>str(i)\<close>, which is also what an f-string field prints\<close>
  "str_int i = (if i < 0 then CHR ''-'' # str_digits (- i) else str_digits i)"

definition nl :: string where
  "nl = [CHR 0x0A]"

definition quote :: string where
  "quote = [CHR 0x27]"

section \<open>Exceptions\<close>

datatype exn_class =
    FloodWait int
  | ValueError
  | KeyError
  | TypeError
  | AttributeError
  | OverflowError
  | OtherException

text \<open>
  An exception is its class and the text \<open>str(e)\<close>. \<open>FloodWait v\<close> is the platform's
  rate-limit signal, \<open>v\<close> its \<open>value\<close> (the seconds to wait). Every class here is a
  subclass of \<open>Exception\<close>.
\<close>

datatype exn = Exn (cls: exn_class) (str_exn: string)

type_synonym 'a result = "exn + 'a"

section \<open>The world a handler runs in\<close>

text \<open>
  A document of the \<open>users\<close> collection is the map of its fields other than \<open>_id\<close>;
  the collection maps \<open>_id\<close> to the document.
\<close>

type_synonym document = "string \<rightharpoonup> int"

datatype level = INFO | WARNING | ERROR

datatype markup =
    InlineKeyboardMarkup "(string \<times> string) list list"
  | ForceReply bool

datatype action =
    Reply string "markup option"
  | Copy int
  | Delete
  | Sleep int
  | Log level string

text \<open>
  \<open>users\<close> is the collection in the store. \<open>store_error = Some e\<close> is a store that
  cannot be reached: every round trip raises \<open>e\<close>. \<open>platform\<close> holds the outcomes of the
  coming calls to the messaging platform, in order (\<open>None\<close> is success; past the end of
  the list every call succeeds). \<open>trace\<close> records, oldest first, every call issued to
  the platform (whatever its outcome), every sleep and every log line.
\<close>

record world =
  users :: "int \<rightharpoonup> document"
  store_error :: "exn option"
  platform :: "exn option list"
  trace :: "action list"

definition emitted :: "world \<Rightarrow> world \<Rightarrow> action list" where
  \<comment> \<open>what a run from \<open>w\<close> to \<open>w'\<close> added to the trace\<close>
  "emitted w w' = drop (length (trace w)) (trace w')"

definition call_platform :: "action \<Rightarrow> world \<Rightarrow> unit result \<times> world" where
  "call_platform a w =
     (case platform w of
        [] \<Rightarrow> (Inr (), w\<lparr>trace := trace w @ [a]\<rparr>)
      | r # rs \<Rightarrow>
          ((case r of None \<Rightarrow> Inr () | Some e \<Rightarrow> Inl e),
           w\<lparr>platform := rs, trace := trace w @ [a]\<rparr>))"

definition reply_text :: "string \<Rightarrow> markup option \<Rightarrow> world \<Rightarrow> unit result \<times> world" where
  "reply_text t k w = call_platform (Reply t k) w"

definition copy :: "int \<Rightarrow> world \<Rightarrow> unit result \<times> world" where
  "copy chat_id w = call_platform (Copy chat_id) w"

definition delete :: "world \<Rightarrow> unit result \<times> world" where
  "delete w = call_platform Delete w"

definition sleep :: "int \<Rightarrow> world \<Rightarrow> world" where
  "sleep v w = w\<lparr>trace := trace w @ [Sleep v]\<rparr>"

definition logger :: "level \<Rightarrow> string \<Rightarrow> world \<Rightarrow> world" where
  "logger l s w = w\<lparr>trace := trace w @ [Log l s]\<rparr>"

section \<open>Database\<close>

definition find_one :: "int \<Rightarrow> world \<Rightarrow> document option result" where
  \<comment> \<open>\<open>users.find_one({"_id": user_id})\<close>\<close>
  "find_one user_id w =
     (case store_error w of
        Some e \<Rightarrow> Inl e
      | None \<Rightarrow> Inr (users w user_id))"

definition int64 :: "int \<Rightarrow> bool" where
  \<comment> \<open>the integers a document can hold: 8 bytes, signed\<close>
  "int64 v = (- 9223372036854775808 \<le> v \<and> v \<le> 9223372036854775807)"

definition update_one :: "int \<Rightarrow> string \<Rightarrow> int \<Rightarrow> world \<Rightarrow> unit result \<times> world" where
  \<comment> \<open>\<open>users.update_one({"_id": user_id}, {"$set": {field: v}}, upsert=True)\<close>; the
    driver refuses to encode an integer of more than 8 bytes\<close>
  "update_one user_id field v w =
     (case store_error w of
        Some e \<Rightarrow> (Inl e, w)
      | None \<Rightarrow>
          if int64 v then
            (Inr (),
             w\<lparr>users := (users w)(user_id \<mapsto>
                  (case users w user_id of None \<Rightarrow> Map.empty | Some d \<Rightarrow> d)(field \<mapsto> v))\<rparr>)
          else (Inl (Exn OverflowError ''MongoDB can only handle up to 8-byte ints''), w))"

definition ping :: "world \<Rightarrow> unit result" where
  \<comment> \<open>\<open>db.client.admin.command("ping")\<close>\<close>
  "ping w = (case store_error w of Some e \<Rightarrow> Inl e | None \<Rightarrow> Inr ())"

definition get_dump_channel :: "int \<Rightarrow> world \<Rightarrow> int option result" where
  "get_dump_channel user_id w =
     (case find_one user_id w of
        Inl e \<Rightarrow> Inl e
      | Inr user \<Rightarrow>
          (case user of
             None \<Rightarrow> Inr None
           | Some d \<Rightarrow>
               (case d ''dump_channel'' of
                  None \<Rightarrow> Inl (Exn KeyError (quote @ ''dump_channel'' @ quote))
                | Some c \<Rightarrow> Inr (Some c))))"

definition set_dump_channel :: "int \<Rightarrow> int \<Rightarrow> world \<Rightarrow> unit result \<times> world" where
  "set_dump_channel user_id channel_id w = update_one user_id ''dump_channel'' channel_id w"

section \<open>Messages and the bot's texts\<close>

datatype media = Document | Video | Audio | Photo | Animation | Sticker

text \<open>
  A message as the handlers and their filters read it: whether its chat is a private
  one, the sender's id, \<open>message.text\<close> (\<open>None\<close> for a message that carries no text),
  the content it carries besides, and the message it replies to.
\<close>

datatype message =
  Message (chat_private: bool) (from_user: int) (text_of: "string option")
    (media: "media option") (reply_to_message: "message option")

definition truthy :: "string option \<Rightarrow> bool" where
  \<comment> \<open>the truth value of an optional string: neither \<open>None\<close> nor empty\<close>
  "truthy t = (case t of None \<Rightarrow> False | Some s \<Rightarrow> s \<noteq> [])"

definition text_startswith :: "string option \<Rightarrow> string \<Rightarrow> bool" where
  \<comment> \<open>\<open>t and t.startswith(p)\<close> for an optional string \<open>t\<close>\<close>
  "text_startswith t p = (case t of None \<Rightarrow> False | Some s \<Rightarrow> s \<noteq> [] \<and> startswith s p)"

definition cross_mark :: string where
  "cross_mark = [CHR 0xE2, CHR 0x9D, CHR 0x8C]"

definition check_mark :: string where
  "check_mark = [CHR 0xE2, CHR 0x9C, CHR 0x85]"

definition waving_hand :: string where
  "waving_hand = [CHR 0xF0, CHR 0x9F, CHR 0x91, CHR 0x8B]"

definition gear :: string where
  "gear = [CHR 0xE2, CHR 0x9A, CHR 0x99]"

definition package :: string where
  "package = [CHR 0xF0, CHR 0x9F, CHR 0x93, CHR 0xA6]"

definition plus_sign :: string where
  "plus_sign = [CHR 0xE2, CHR 0x9E, CHR 0x95]"

definition warning_sign :: string where
  "warning_sign = [CHR 0xE2, CHR 0x9A, CHR 0xA0]"

definition no_dump_text :: string where
  "no_dump_text =
     cross_mark @ '' You have not set a dump channel.'' @ nl @
     ''Use /settings to configure it.''"

definition failed_text :: string where
  "failed_text = cross_mark @ '' Failed to dump this message.''"

definition start_text :: string where
  "start_text =
     waving_hand @ '' **User Dump Bot**'' @ nl @ nl @
     ''Send me any text or file and I will dump it to *your* channel.'' @ nl @
     ''Use /settings to configure your dump channel.''"

definition settings_text :: "int option \<Rightarrow> string" where
  \<comment> \<open>the field is \<open>dump_channel or 'Not Set'\<close>: \<open>None\<close> and \<open>0\<close> print as \<open>Not Set\<close>\<close>
  "settings_text dump_channel =
     ''**'' @ gear @ '' Your Settings**'' @ nl @ nl @
     package @ '' Dump Channel ID:'' @ nl @ ''`'' @
     (case dump_channel of
        None \<Rightarrow> ''Not Set''
      | Some c \<Rightarrow> if c = 0 then ''Not Set'' else str_int c) @ ''`''"

definition settings_keyboard :: markup where
  "settings_keyboard = InlineKeyboardMarkup [[(plus_sign @ '' Set Dump Channel'', ''set_dump'')]]"

definition prompt_text :: string where
  "prompt_text =
     ''**Send your Dump Channel ID**'' @ nl @ nl @
     ''Example:'' @ nl @ ''`-1001234567890`'' @ nl @ nl @
     warning_sign @ '' Bot must be admin in that channel''"

definition saved_text :: "int \<Rightarrow> string" where
  "saved_text channel_id =
     check_mark @ '' Dump channel saved for you:'' @ nl @ ''`'' @ str_int channel_id @ ''`''"

definition invalid_text :: string where
  "invalid_text = cross_mark @ '' Invalid channel ID. Send numbers only.''"

definition health_ok_text :: string where
  "health_ok_text =
     check_mark @ '' Bot is running!'' @ nl @ check_mark @ '' MongoDB connection OK!''"

definition health_bad_text :: "exn \<Rightarrow> string" where
  "health_bad_text e = cross_mark @ '' Something is wrong!'' @ nl @ str_exn e"

section \<open>The handlers\<close>

text \<open>
  The filters of the decorators. They belong to the client library, which is not part
  of the repository. Those that test one attribute of the message are written as the
  library documents them: the chat type, \<open>message.text\<close>, the kind of content, the
  presence of a replied message. The library's \<open>filters.command\<close> is not written out: it
  is the parameter \<open>command\<close> of the filters that use it, and what is proved holds for
  every such filter.
\<close>

definition filter_private :: "message \<Rightarrow> bool" where
  "filter_private m = chat_private m"

definition filter_text :: "message \<Rightarrow> bool" where
  "filter_text m = truthy (text_of m)"

definition filter_media :: "media \<Rightarrow> message \<Rightarrow> bool" where
  "filter_media k m = (media m = Some k)"

definition filter_reply :: "message \<Rightarrow> bool" where
  "filter_reply m = (reply_to_message m \<noteq> None)"

definition dump_handler_filter :: "message \<Rightarrow> bool" where
  "dump_handler_filter m =
     (filter_private m \<and>
      (filter_text m \<or> filter_media Document m \<or> filter_media Video m \<or>
       filter_media Audio m \<or> filter_media Photo m \<or> filter_media Animation m \<or>
       filter_media Sticker m))"

definition start_cmd_filter :: "(string \<Rightarrow> message \<Rightarrow> bool) \<Rightarrow> message \<Rightarrow> bool" where
  "start_cmd_filter command m = (command ''start'' m \<and> filter_private m)"

definition settings_cmd_filter :: "(string \<Rightarrow> message \<Rightarrow> bool) \<Rightarrow> message \<Rightarrow> bool" where
  "settings_cmd_filter command m = (command ''settings'' m \<and> filter_private m)"

definition save_dump_channel_filter :: "message \<Rightarrow> bool" where
  "save_dump_channel_filter m = (filter_private m \<and> filter_reply m \<and> filter_text m)"

definition health_check_filter :: "(string \<Rightarrow> message \<Rightarrow> bool) \<Rightarrow> message \<Rightarrow> bool" where
  "health_check_filter command m = (command ''health'' m \<and> filter_private m)"

text \<open>
  A handler takes the message and the world and returns \<open>Inr ()\<close> when it returns, or
  \<open>Inl e\<close> when the exception \<open>e\<close> leaves it, with the world it leaves behind. Each
  handler is modelled on every message, also on those its filter would not accept.
\<close>

definition dump_handler :: "message \<Rightarrow> world \<Rightarrow> unit result \<times> world" where
  "dump_handler message w =
     (if text_startswith (text_of message) ''/'' then (Inr (), w)
      else
        let user_id = from_user message in
        case get_dump_channel user_id w of
          Inl e \<Rightarrow> (Inl e, w)
        | Inr dump_channel \<Rightarrow>
            (case (if dump_channel = Some 0 then None else dump_channel) of
               None \<Rightarrow>
                 (if truthy (text_of message) then (Inr (), w)
                  else reply_text no_dump_text None w)
             | Some channel \<Rightarrow>
                 (case copy channel w of
                    (Inr u, w1) \<Rightarrow> (Inr (), w1)
                  | (Inl e, w1) \<Rightarrow>
                      (case cls e of
                         FloodWait v \<Rightarrow>
                           copy channel
                             (sleep v
                               (logger WARNING
                                 (''FloodWait '' @ str_int v @ ''s for user '' @ str_int user_id)
                                 w1))
                       | _ \<Rightarrow>
                           reply_text failed_text None
                             (logger ERROR
                               (''Dump error for user '' @ str_int user_id @ '': '' @ str_exn e)
                               w1)))))"

definition start_cmd :: "message \<Rightarrow> world \<Rightarrow> unit result \<times> world" where
  "start_cmd message w = reply_text start_text None w"

definition settings_cmd :: "message \<Rightarrow> world \<Rightarrow> unit result \<times> world" where
  "settings_cmd message w =
     (case get_dump_channel (from_user message) w of
        Inl e \<Rightarrow> (Inl e, w)
      | Inr dump_channel \<Rightarrow>
          reply_text (settings_text dump_channel) (Some settings_keyboard) w)"

definition set_dump_callback :: "world \<Rightarrow> unit result \<times> world" where
  "set_dump_callback w =
     (case delete w of
        (Inl e, w1) \<Rightarrow> (Inl e, w1)
      | (Inr u, w1) \<Rightarrow> reply_text prompt_text (Some (ForceReply True)) w1)"

definition save_try :: "message \<Rightarrow> world \<Rightarrow> unit result \<times> world" where
  \<comment> \<open>the body of the \<open>try\<close> of \<open>save_dump_channel\<close>\<close>
  "save_try message w =
     (case text_of message of
        None \<Rightarrow>
          (Inl (Exn AttributeError
             (quote @ ''NoneType'' @ quote @ '' object has no attribute '' @
              quote @ ''strip'' @ quote)), w)
      | Some t \<Rightarrow>
          (case py_int (strip t) of
             None \<Rightarrow> (Inl (Exn ValueError ''invalid literal for int() with base 10''), w)
           | Some channel_id \<Rightarrow>
               let user_id = from_user message in
               (case set_dump_channel user_id channel_id w of
                  (Inl e, w1) \<Rightarrow> (Inl e, w1)
                | (Inr u, w1) \<Rightarrow> reply_text (saved_text channel_id) None w1)))"

definition save_dump_channel :: "message \<Rightarrow> world \<Rightarrow> unit result \<times> world" where
  "save_dump_channel message w =
     (case reply_to_message message of
        None \<Rightarrow> (Inr (), w)
      | Some replied \<Rightarrow>
          (case text_of replied of
             None \<Rightarrow>
               (Inl (Exn TypeError
                  (''argument of type '' @ quote @ ''NoneType'' @ quote @
                   '' is not iterable'')), w)
           | Some prompt \<Rightarrow>
               if \<not> contains prompt ''Dump Channel ID'' then (Inr (), w)
               else
                 (case save_try message w of
                    (Inr u, w1) \<Rightarrow> (Inr (), w1)
                  | (Inl e, w1) \<Rightarrow>
                      if cls e = ValueError then reply_text invalid_text None w1
                      else (Inl e, w1))))"

definition health_check :: "message \<Rightarrow> world \<Rightarrow> unit result \<times> world" where
  "health_check message w =
     (case ping w of
        Inl e \<Rightarrow> reply_text (health_bad_text e) None w
      | Inr u \<Rightarrow>
          (case reply_text health_ok_text None w of
             (Inr u', w1) \<Rightarrow> (Inr (), w1)
           | (Inl e, w1) \<Rightarrow> reply_text (health_bad_text e) None w1))"

text \<open>
  The message handlers in the order of their decorators in the file. No decorator names
  a group, so the five share one group of the client library. The library offers a
  message to the handlers of a group in the order of their registration and calls the
  first whose filter accepts it, and no other handler of that group; a message that no
  filter accepts is dropped. \<open>on_message\<close> is that dispatch; its result is the result of
  the handler it calls.
\<close>

type_synonym handler = "message \<Rightarrow> world \<Rightarrow> unit result \<times> world"

definition handlers :: "(string \<Rightarrow> message \<Rightarrow> bool) \<Rightarrow> ((message \<Rightarrow> bool) \<times> handler) list" where
  "handlers command =
     [(dump_handler_filter, dump_handler),
      (start_cmd_filter command, start_cmd),
      (settings_cmd_filter command, settings_cmd),
      (save_dump_channel_filter, save_dump_channel),
      (health_check_filter command, health_check)]"

fun first_accepting :: "((message \<Rightarrow> bool) \<times> handler) list \<Rightarrow> handler" where
  "first_accepting [] m w = (Inr (), w)"
| "first_accepting ((accepts, h) # hs) m w =
     (if accepts m then h m w else first_accepting hs m w)"

definition on_message :: "(string \<Rightarrow> message \<Rightarrow> bool) \<Rightarrow> handler" where
  "on_message command m w = first_accepting (handlers command) m w"

record response =
  status :: nat
  body :: string

definition http_health :: "world \<Rightarrow> response" where
  "http_health w =
     (case ping w of
        Inr u \<Rightarrow> \<lparr>status = 200, body = ''OK''\<rparr>
      | Inl e \<Rightarrow> \<lparr>status = 500, body = ''MongoDB connection failed''\<rparr>)"

section \<open>Example worlds\<close>

definition empty_world :: world where
  \<comment> \<open>an empty collection, a store that answers, a platform that accepts every call\<close>
  "empty_world = \<lparr>users = Map.empty, store_error = None, platform = [], trace = []\<rparr>"

definition bound_world :: "int \<Rightarrow> int \<Rightarrow> world" where
  \<comment> \<open>the same, with the one document \<open>{_id: u, dump_channel: c}\<close>\<close>
  "bound_world u c = empty_world\<lparr>users := [u \<mapsto> [''dump_channel'' \<mapsto> c]]\<rparr>"

definition delivers :: "world \<Rightarrow> bool" where
  \<comment> \<open>the platform accepts the next call\<close>
  "delivers w = (case platform w of [] \<Rightarrow> True | r # rs \<Rightarrow> r = None)"

fun is_copy :: "action \<Rightarrow> bool" where
  "is_copy (Copy c) = True"
| "is_copy a = False"

definition prompt_message :: message where
  "prompt_message = Message True 1 (Some prompt_text) None None"

definition down_world :: world where
  \<comment> \<open>a store that cannot be reached\<close>
  "down_world = empty_world\<lparr>store_error := Some (Exn OtherException ''connection refused'')\<rparr>"

definition unbind :: "int \<Rightarrow> world \<Rightarrow> world" where
  \<comment> \<open>the world with the user's document taken out of the collection\<close>
  "unbind u w = w\<lparr>users := (users w)(u := None)\<rparr>"

definition flood_world :: "int \<Rightarrow> int \<Rightarrow> int \<Rightarrow> exn \<Rightarrow> world" where
  \<comment> \<open>user \<open>u\<close> bound to \<open>c\<close>; the first platform call is rate-limited, the second raises \<open>e\<close>\<close>
  "flood_world u c v e =
     (bound_world u c)\<lparr>platform := [Some (Exn (FloodWait v) ''FLOOD_WAIT''), Some e]\<rparr>"



section \<open>The registry\<close>

lemma set_dump_channel_up:
  "store_error w = None \<Longrightarrow> int64 c \<Longrightarrow>
   set_dump_channel u c w =
     (Inr (), w\<lparr>users := (users w)(u \<mapsto>
        (case users w u of None \<Rightarrow> Map.empty | Some d \<Rightarrow> d)(''dump_channel'' \<mapsto> c))\<rparr>)"
  by (simp add: set_dump_channel_def update_one_def)

lemma get_dump_channel_up:
  "store_error w = None \<Longrightarrow>
   get_dump_channel u w =
     (case users w u of
        None \<Rightarrow> Inr None
      | Some d \<Rightarrow>
          (case d ''dump_channel'' of
             None \<Rightarrow> Inl (Exn KeyError (quote @ ''dump_channel'' @ quote))
           | Some c \<Rightarrow> Inr (Some c)))"
  by (simp add: get_dump_channel_def find_one_def)

section \<open>Facts about the handlers\<close>

lemmas platform_defs =
  call_platform_def reply_text_def copy_def delete_def sleep_def logger_def emitted_def

lemma dump_handler_command:
  assumes "text_of m = Some t" and "startswith t ''/''"
  shows "dump_handler m w = (Inr (), w)"
proof -
  have "t \<noteq> []"
    using assms(2) by (auto simp: startswith_def)
  then show ?thesis
    using assms by (simp add: dump_handler_def text_startswith_def)
qed


lemma dump_handler_unset_text:
  assumes "get_dump_channel (from_user m) w = Inr dc" and "dc = None \<or> dc = Some 0"
    and "truthy (text_of m)"
  shows "dump_handler m w = (Inr (), w)"
  using assms by (auto simp: dump_handler_def Let_def)

lemma dump_handler_unset_content:
  assumes "get_dump_channel (from_user m) w = Inr dc" and "dc = None \<or> dc = Some 0"
    and "\<not> truthy (text_of m)"
  shows "dump_handler m w = reply_text no_dump_text None w"
proof -
  have "\<not> text_startswith (text_of m) ''/''"
    using assms(3) by (auto simp: truthy_def text_startswith_def split: option.splits)
  then show ?thesis
    using assms by (auto simp: dump_handler_def Let_def)
qed

lemma emitted_self: "emitted w w = []"
  by (simp add: emitted_def)

lemma reply_text_effect:
  "emitted w (snd (reply_text t k w)) = [Reply t k]"
  "users (snd (reply_text t k w)) = users w"
  "store_error (snd (reply_text t k w)) = store_error w"
  "delivers w \<Longrightarrow> fst (reply_text t k w) = Inr ()"
  by (auto simp: platform_defs delivers_def split: list.splits)


lemma no_copy_start_cmd: "filter is_copy (emitted w (snd (start_cmd m w))) = []"
  by (simp add: start_cmd_def reply_text_effect)

lemma no_copy_settings_cmd: "filter is_copy (emitted w (snd (settings_cmd m w))) = []"
  by (simp add: settings_cmd_def reply_text_effect emitted_self split: sum.splits)

lemma no_copy_health_check: "filter is_copy (emitted w (snd (health_check m w))) = []"
  by (auto simp: health_check_def platform_defs split: sum.splits list.splits option.splits)

lemma emitted_append: "trace w' = trace w @ xs \<Longrightarrow> emitted w w' = xs"
  by (simp add: emitted_def)

lemma trace_reply_text: "trace (snd (reply_text t k w)) = trace w @ [Reply t k]"
  by (simp add: reply_text_def call_platform_def split: list.splits)

lemma trace_set_dump_channel: "trace (snd (set_dump_channel u c w)) = trace w"
  by (simp add: set_dump_channel_def update_one_def split: option.splits)

lemma trace_save_try:
  "\<exists>xs. trace (snd (save_try m w)) = trace w @ xs \<and> filter is_copy xs = []"
proof (cases "text_of m")
  case None
  then show ?thesis by (simp add: save_try_def)
next
  case (Some t)
  show ?thesis
  proof (cases "py_int (strip t)")
    case None
    then show ?thesis using Some by (simp add: save_try_def)
  next
    case (Some n)
    obtain r w1 where s: "set_dump_channel (from_user m) n w = (r, w1)"
      by (cases "set_dump_channel (from_user m) n w")
    have t1: "trace w1 = trace w"
      using trace_set_dump_channel [of "from_user m" n w] s by simp
    show ?thesis
      using \<open>text_of m = Some t\<close> Some s t1
      by (cases r) (simp_all add: save_try_def trace_reply_text)
  qed
qed

lemma no_copy_save_dump_channel:
  "filter is_copy (emitted w (snd (save_dump_channel m w))) = []"
proof -
  obtain r w1 where s: "save_try m w = (r, w1)"
    by (cases "save_try m w")
  obtain xs where xs: "trace w1 = trace w @ xs" "filter is_copy xs = []"
    using trace_save_try [of m w] s by auto
  have "\<exists>ys. trace (snd (save_dump_channel m w)) = trace w @ ys \<and> filter is_copy ys = []"
    using s xs
    by (cases r) (auto simp: save_dump_channel_def trace_reply_text
        split: option.splits)
  then show ?thesis
    by (auto simp: emitted_append)
qed


lemma fst_reply_text:
  "platform w = platform w' \<Longrightarrow> fst (reply_text t k w) = fst (reply_text t k w')"
  by (simp add: reply_text_def call_platform_def split: list.splits)

lemma dump_handler_same_as_unbound:
  assumes "store_error w = None" and "get_dump_channel (from_user m) w = Inr (Some 0)"
  shows "fst (dump_handler m w) = fst (dump_handler m (unbind (from_user m) w))"
    and "emitted w (snd (dump_handler m w)) =
         emitted (unbind (from_user m) w) (snd (dump_handler m (unbind (from_user m) w)))"
proof -
  let ?w' = "unbind (from_user m) w"
  have g': "get_dump_channel (from_user m) ?w' = Inr None"
    using assms(1) by (simp add: unbind_def get_dump_channel_up)
  have p: "platform w = platform ?w'"
    by (simp add: unbind_def)
  show "fst (dump_handler m w) = fst (dump_handler m ?w')"
  proof (cases "truthy (text_of m)")
    case True
    then show ?thesis
      using dump_handler_unset_text [OF assms(2)] dump_handler_unset_text [OF g'] by simp
  next
    case False
    then show ?thesis
      using dump_handler_unset_content [OF assms(2)] dump_handler_unset_content [OF g']
        fst_reply_text [OF p]
      by simp
  qed
  show "emitted w (snd (dump_handler m w)) = emitted ?w' (snd (dump_handler m ?w'))"
  proof (cases "truthy (text_of m)")
    case True
    then show ?thesis
      using dump_handler_unset_text [OF assms(2)] dump_handler_unset_text [OF g']
      by (simp add: emitted_self)
  next
    case False
    then show ?thesis
      using dump_handler_unset_content [OF assms(2)] dump_handler_unset_content [OF g']
      by (simp add: reply_text_effect)
  qed
qed


lemma dump_handler_relay:
  assumes "\<not> text_startswith (text_of m) ''/''"
    and "get_dump_channel (from_user m) w = Inr (Some c)" and "c \<noteq> 0"
  shows "dump_handler m w =
     (case copy c w of
        (Inr u, w1) \<Rightarrow> (Inr (), w1)
      | (Inl e, w1) \<Rightarrow>
          (case cls e of
             FloodWait v \<Rightarrow>
               copy c
                 (sleep v
                   (logger WARNING
                     (''FloodWait '' @ str_int v @ ''s for user '' @ str_int (from_user m)) w1))
           | _ \<Rightarrow>
               reply_text failed_text None
                 (logger ERROR
                   (''Dump error for user '' @ str_int (from_user m) @ '': '' @ str_exn e)
                   w1)))"
  using assms by (simp add: dump_handler_def Let_def)




lemma on_message_dump_first:
  "dump_handler_filter m \<Longrightarrow> on_message command m w = dump_handler m w"
  by (simp add: on_message_def handlers_def)

lemma private_text_offered:
  "chat_private m \<Longrightarrow> truthy (text_of m) \<Longrightarrow> dump_handler_filter m"
  by (simp add: dump_handler_filter_def filter_private_def filter_text_def)

lemma submission_offered:
  "save_dump_channel_filter m \<Longrightarrow> dump_handler_filter m"
  by (simp add: save_dump_channel_filter_def dump_handler_filter_def)

lemma call_platform_frame:
  "users (snd (call_platform a w)) = users w"
  "trace (snd (call_platform a w)) = trace w @ [a]"
  by (simp_all add: call_platform_def split: list.splits)

lemma dump_handler_cases:
  obtains (command) "dump_handler m w = (Inr (), w)"
  | (raised) e where "dump_handler m w = (Inl e, w)"
  | (prompted) "\<not> truthy (text_of m)" "dump_handler m w = reply_text no_dump_text None w"
  | (relayed) c where "\<not> text_startswith (text_of m) ''/''"
      "get_dump_channel (from_user m) w = Inr (Some c)" "c \<noteq> 0"
proof (cases "text_startswith (text_of m) ''/''")
  case True
  then show ?thesis
    using command by (simp add: dump_handler_def)
next
  case nc: False
  show ?thesis
  proof (cases "get_dump_channel (from_user m) w")
    case (Inl e)
    then show ?thesis
      using nc raised by (simp add: dump_handler_def)
  next
    case (Inr dc)
    show ?thesis
    proof (cases "dc = None \<or> dc = Some 0")
      case True
      then show ?thesis
        using dump_handler_unset_text [OF Inr] dump_handler_unset_content [OF Inr]
          command prompted
        by (cases "truthy (text_of m)") auto
    next
      case False
      then obtain c where "dc = Some c" "c \<noteq> 0"
        by (cases dc) auto
      then show ?thesis
        using nc Inr relayed by simp
    qed
  qed
qed

lemma relay_trace:
  assumes "\<not> text_startswith (text_of m) ''/''"
    and "get_dump_channel (from_user m) w = Inr (Some c)" and "c \<noteq> 0"
  shows "users (snd (dump_handler m w)) = users w"
    and "\<exists>xs. trace (snd (dump_handler m w)) = trace w @ xs \<and>
           (\<forall>t k. Reply t k \<in> set xs \<longrightarrow> t = failed_text \<and> k = None)"
proof -
  obtain r w1 where c1: "copy c w = (r, w1)"
    by (cases "copy c w")
  have f1: "users w1 = users w" "trace w1 = trace w @ [Copy c]"
    using call_platform_frame [of "Copy c" w] c1 by (simp_all add: copy_def)
  show "users (snd (dump_handler m w)) = users w"
  proof (cases r)
    case (Inl e)
    then show ?thesis
      using c1 f1
      by (cases "cls e")
        (simp_all add: dump_handler_relay [OF assms] reply_text_def copy_def sleep_def
          logger_def call_platform_frame)
  next
    case (Inr u)
    then show ?thesis
      using c1 f1 by (simp add: dump_handler_relay [OF assms])
  qed
  show "\<exists>xs. trace (snd (dump_handler m w)) = trace w @ xs \<and>
           (\<forall>t k. Reply t k \<in> set xs \<longrightarrow> t = failed_text \<and> k = None)"
  proof (cases r)
    case (Inl e)
    then show ?thesis
      using c1 f1
      by (cases "cls e")
        (simp_all add: dump_handler_relay [OF assms] reply_text_def copy_def sleep_def
          logger_def call_platform_frame)
  next
    case (Inr u)
    then show ?thesis
      using c1 f1 by (simp add: dump_handler_relay [OF assms])
  qed
qed

lemma dump_handler_users: "users (snd (dump_handler m w)) = users w"
proof (cases m w rule: dump_handler_cases)
  case command
  then show ?thesis by simp
next
  case (raised e)
  then show ?thesis by simp
next
  case prompted
  then show ?thesis by (simp add: reply_text_effect)
next
  case (relayed c)
  then show ?thesis by (rule relay_trace(1))
qed

lemma dump_handler_text_replies:
  assumes "truthy (text_of m)"
    and "Reply t k \<in> set (emitted w (snd (dump_handler m w)))"
  shows "t = failed_text \<and> k = None"
proof (cases m w rule: dump_handler_cases)
  case command
  then show ?thesis using assms(2) by (simp add: emitted_self)
next
  case (raised e)
  then show ?thesis using assms(2) by (simp add: emitted_self)
next
  case prompted
  then show ?thesis using assms(1) by simp
next
  case (relayed c)
  obtain xs where "trace (snd (dump_handler m w)) = trace w @ xs"
    and r: "\<forall>t k. Reply t k \<in> set xs \<longrightarrow> t = failed_text \<and> k = None"
    using relay_trace(2) [OF relayed] by blast
  then have "emitted w (snd (dump_handler m w)) = xs"
    by (simp add: emitted_append)
  then show ?thesis
    using assms(2) r by simp
qed

lemma failed_text_distinct:
  "failed_text \<noteq> saved_text n" "failed_text \<noteq> invalid_text"
  by (simp_all add: failed_text_def saved_text_def invalid_text_def check_mark_def
      cross_mark_def)

lemma saved_text_pinned: "startswith (saved_text n) (check_mark @ '' Dump channel saved'')"
  by (simp add: startswith_def saved_text_def check_mark_def)

lemma invalid_text_pinned: "contains invalid_text ''Invalid channel ID''"
  by code_simp


lemma reply_text_changes: "reply_text t k w \<noteq> (r, w)"
proof
  assume "reply_text t k w = (r, w)"
  then have "trace (snd (reply_text t k w)) = trace w"
    by simp
  then show False
    by (simp add: trace_reply_text)
qed

lemma command_handlers_not_called:
  "start_cmd m w \<noteq> (Inr (), w)" "settings_cmd m w \<noteq> (Inr (), w)"
  "health_check m w \<noteq> (Inr (), w)"
proof -
  show "start_cmd m w \<noteq> (Inr (), w)"
    by (simp add: start_cmd_def reply_text_changes)
  show "settings_cmd m w \<noteq> (Inr (), w)"
    by (simp add: settings_cmd_def reply_text_changes split: sum.splits)
  show "health_check m w \<noteq> (Inr (), w)"
  proof
    assume a: "health_check m w = (Inr (), w)"
    have "trace (snd (health_check m w)) \<noteq> trace w"
      by (auto simp: health_check_def reply_text_def call_platform_def
          split: sum.splits list.splits option.splits)
    then show False
      using a by simp
  qed
qed

lemma command_text_dropped:
  assumes "chat_private m" and "text_of m = Some t" and "startswith t ''/''"
  shows "on_message command m w = (Inr (), w)"
proof -
  have "t \<noteq> []"
    using assms(3) by (auto simp: startswith_def)
  then have "dump_handler_filter m"
    using assms(1,2) by (simp add: private_text_offered truthy_def)
  then show ?thesis
    using dump_handler_command [OF assms(2,3)] by (simp add: on_message_dump_first)
qed

lemma health_text_is_command:
  assumes "startswith t ''/health''"
  shows "startswith t ''/''"
  using assms by (cases t) (auto simp: startswith_def)


lemma no_dump_text_pinned: "contains no_dump_text ''Use /settings to configure it.''"
  by code_simp

section \<open>The claims\<close>

text \<open>
  Claim C5. For a user id with no document in the collection, \<open>get_dump_channel\<close>
  returns \<open>None\<close> as a value and raises nothing, while the store answers.
\<close>

theorem get_never_stored:
  assumes "store_error w = None" and "users w u = None"
  shows "get_dump_channel u w = Inr None"
  using assms by (simp add: get_dump_channel_up)

theorem get_never_stored_witness:
  "store_error (bound_world 7 (- 100)) = None \<and> users (bound_world 7 (- 100)) 8 = None \<and>
   get_dump_channel 8 (bound_world 7 (- 100)) = Inr None"
proof -
  have h1: "store_error (bound_world 7 (- 100)) = None"
    by (simp add: bound_world_def empty_world_def)
  have h2: "users (bound_world 7 (- 100)) 8 = None"
    by (simp add: bound_world_def empty_world_def)
  show ?thesis
    using h1 h2 get_never_stored [OF h1 h2] by simp
qed

text \<open>
  Claim C3. For a sender with no document in the collection, while the store answers:
  a message whose text is not empty and does not begin with \<open>/\<close> makes \<open>dump_handler\<close>
  return with nothing issued; a message with no text (a document, video, audio, photo,
  animation or sticker) makes it issue exactly one reply, the text that tells the user
  to configure a dump channel with \<open>/settings\<close>.
\<close>

theorem unset_destination_text_silent_content_prompted:
  assumes "store_error w = None" and "users w (from_user m) = None"
  shows "(truthy (text_of m) \<and> \<not> text_startswith (text_of m) ''/'' \<longrightarrow>
            dump_handler m w = (Inr (), w) \<and> emitted w (snd (dump_handler m w)) = []) \<and>
         (\<not> truthy (text_of m) \<longrightarrow>
            emitted w (snd (dump_handler m w)) = [Reply no_dump_text None] \<and>
            users (snd (dump_handler m w)) = users w) \<and>
         contains no_dump_text ''Use /settings to configure it.''"
proof -
  have g: "get_dump_channel (from_user m) w = Inr None"
    using assms by (simp add: get_dump_channel_up)
  have "contains no_dump_text ''Use /settings to configure it.''"
    by code_simp
  then show ?thesis
    using dump_handler_unset_text [OF g] dump_handler_unset_content [OF g]
    by (simp add: reply_text_effect emitted_self)
qed

theorem unset_destination_text_silent_content_prompted_witness:
  "dump_handler_filter (Message True 7 (Some ''hello'') None None) \<and>
   dump_handler_filter (Message True 7 None (Some Photo) None) \<and>
   store_error empty_world = None \<and> users empty_world 7 = None \<and>
   dump_handler (Message True 7 (Some ''hello'') None None) empty_world = (Inr (), empty_world) \<and>
   emitted empty_world (snd (dump_handler (Message True 7 None (Some Photo) None) empty_world))
     = [Reply no_dump_text None]"
proof -
  have s: "store_error empty_world = None"
    by (simp add: empty_world_def)
  have u: "users empty_world (from_user (Message True 7 (Some ''hello'') None None)) = None"
    and u': "users empty_world (from_user (Message True 7 None (Some Photo) None)) = None"
    by (simp_all add: empty_world_def)
  have t: "truthy (text_of (Message True 7 (Some ''hello'') None None)) \<and>
      \<not> text_startswith (text_of (Message True 7 (Some ''hello'') None None)) ''/''"
    by (simp add: truthy_def text_startswith_def startswith_def)
  have t': "\<not> truthy (text_of (Message True 7 None (Some Photo) None))"
    by (simp add: truthy_def)
  have f: "dump_handler_filter (Message True 7 (Some ''hello'') None None)"
    and f': "dump_handler_filter (Message True 7 None (Some Photo) None)"
    by (simp_all add: dump_handler_filter_def filter_private_def filter_text_def
        filter_media_def truthy_def)
  show ?thesis
    using unset_destination_text_silent_content_prompted [OF s u]
      unset_destination_text_silent_content_prompted [OF s u'] s t t' f f'
    by (simp add: empty_world_def)
qed

text \<open>
  Claim C6. A message whose text begins with \<open>/\<close> makes \<open>dump_handler\<close> return at once,
  with the world as it was, whatever the sender's binding and whatever content the
  message carries; and none of the message handlers issues a copy for it.
\<close>

theorem command_never_relayed:
  assumes "text_of m = Some t" and "startswith t ''/''"
  shows "dump_handler m w = (Inr (), w) \<and>
         (\<forall>h \<in> set [dump_handler, start_cmd, settings_cmd, save_dump_channel, health_check].
            filter is_copy (emitted w (snd (h m w))) = [])"
  using dump_handler_command [OF assms]
  by (simp add: no_copy_start_cmd no_copy_settings_cmd no_copy_health_check
      no_copy_save_dump_channel emitted_self)

theorem command_never_relayed_witness:
  "startswith ''/start'' ''/'' \<and>
   dump_handler (Message True 7 (Some ''/start'') (Some Photo) None) (bound_world 7 (- 100))
     = (Inr (), bound_world 7 (- 100)) \<and>
   filter is_copy (emitted (bound_world 7 (- 100))
     (snd (start_cmd (Message True 7 (Some ''/start'') (Some Photo) None) (bound_world 7 (- 100)))))
     = []"
proof -
  have t: "text_of (Message True 7 (Some ''/start'') (Some Photo) None) = Some ''/start''"
    by simp
  have p: "startswith ''/start'' ''/''"
    by (simp add: startswith_def)
  show ?thesis
    using command_never_relayed [OF t p, of "bound_world 7 (- 100)"] p by simp
qed

text \<open>
  Claim C2 expects one wait, one retry and, when the retry fails too, one failure reply.
  What the code does when the first copy is rate-limited with wait \<open>v\<close> and the retry
  raises \<open>e\<close>: it copies, logs a warning, sleeps \<open>v\<close> once and copies once more, with
  no third attempt; then \<open>e\<close> leaves \<open>dump_handler\<close> and no reply is issued, because the
  retry stands inside the handler of the rate-limit signal, outside the \<open>try\<close>.
\<close>

theorem retry_failure_escapes_unreported:
  assumes "\<not> text_startswith (text_of m) ''/''"
    and "get_dump_channel (from_user m) w = Inr (Some c)" and "c \<noteq> 0"
    and "platform w = Some (Exn (FloodWait v) s) # Some e # rest"
  shows "fst (dump_handler m w) = Inl e \<and>
         emitted w (snd (dump_handler m w)) =
           [Copy c,
            Log WARNING (''FloodWait '' @ str_int v @ ''s for user '' @ str_int (from_user m)),
            Sleep v,
            Copy c] \<and>
         platform (snd (dump_handler m w)) = rest"
  using assms(4) by (simp add: dump_handler_relay [OF assms(1-3)] platform_defs)

theorem retry_failure_escapes_unreported_witness:
  "fst (dump_handler (Message True 7 (Some ''hello'') None None)
     (flood_world 7 (- 100) 5 (Exn OtherException ''CHAT_WRITE_FORBIDDEN'')))
     = Inl (Exn OtherException ''CHAT_WRITE_FORBIDDEN'') \<and>
   emitted (flood_world 7 (- 100) 5 (Exn OtherException ''CHAT_WRITE_FORBIDDEN''))
     (snd (dump_handler (Message True 7 (Some ''hello'') None None)
       (flood_world 7 (- 100) 5 (Exn OtherException ''CHAT_WRITE_FORBIDDEN''))))
     = [Copy (- 100), Log WARNING ''FloodWait 5s for user 7'', Sleep 5, Copy (- 100)]"
proof -
  let ?m = "Message True 7 (Some ''hello'') None None"
  let ?w = "flood_world 7 (- 100) 5 (Exn OtherException ''CHAT_WRITE_FORBIDDEN'')"
  have t: "\<not> text_startswith (text_of ?m) ''/''"
    by (simp add: text_startswith_def startswith_def)
  have g: "get_dump_channel (from_user ?m) ?w = Inr (Some (- 100))"
    by (simp add: get_dump_channel_def find_one_def flood_world_def bound_world_def
        empty_world_def)
  have c: "(- 100 :: int) \<noteq> 0"
    by simp
  have p: "platform ?w = Some (Exn (FloodWait 5) ''FLOOD_WAIT'') #
      Some (Exn OtherException ''CHAT_WRITE_FORBIDDEN'') # []"
    by (simp add: flood_world_def)
  have s5: "str_int 5 = ''5''" and s7: "str_int 7 = ''7''"
    by code_simp+
  show ?thesis
    using retry_failure_escapes_unreported [OF t g c p] s5 s7 by simp
qed




text \<open>
  Claim C1 expects a reply to the prompt to be stored and confirmed when it is an
  integer, and answered with the invalid-input reply when it is not. What the code does:
  such a message is a private text, so the filter of \<open>dump_handler\<close>, registered first,
  accepts it and \<open>save_dump_channel\<close> is never called. Whatever the body, the collection
  is unchanged and neither the confirmation nor the invalid-input reply is issued.
\<close>

theorem submission_taken_by_dump_handler:
  assumes "save_dump_channel_filter m"
  shows "on_message command m w = dump_handler m w \<and>
         users (snd (on_message command m w)) = users w \<and>
         Reply (saved_text n) None \<notin> set (emitted w (snd (on_message command m w))) \<and>
         Reply invalid_text None \<notin> set (emitted w (snd (on_message command m w))) \<and>
         startswith (saved_text n) (check_mark @ '' Dump channel saved'') \<and>
         contains invalid_text ''Invalid channel ID''"
proof -
  have d: "on_message command m w = dump_handler m w"
    using submission_offered [OF assms] by (rule on_message_dump_first)
  have t: "truthy (text_of m)"
    using assms by (simp add: save_dump_channel_filter_def filter_text_def)
  have "Reply (saved_text n) None \<notin> set (emitted w (snd (dump_handler m w)))"
    using dump_handler_text_replies [OF t, of "saved_text n" None w] failed_text_distinct(1) [of n]
    by auto
  moreover have "Reply invalid_text None \<notin> set (emitted w (snd (dump_handler m w)))"
    using dump_handler_text_replies [OF t, of invalid_text None w] failed_text_distinct(2)
    by auto
  ultimately show ?thesis
    using d dump_handler_users [of m w] saved_text_pinned [of n] invalid_text_pinned by simp
qed

theorem submission_taken_by_dump_handler_witness:
  "\<forall>command.
     save_dump_channel_filter
       (Message True 7 (Some ''-1001234567890'') None (Some prompt_message)) \<and>
     py_int (strip ''-1001234567890'') = Some (- 1001234567890) \<and>
     on_message command (Message True 7 (Some ''-1001234567890'') None (Some prompt_message))
       empty_world = (Inr (), empty_world) \<and>
     get_dump_channel 7
       (snd (on_message command
          (Message True 7 (Some ''-1001234567890'') None (Some prompt_message)) empty_world))
       = Inr None \<and>
     emitted (bound_world 7 (- 100))
       (snd (on_message command (Message True 7 (Some ''abc'') None (Some prompt_message))
          (bound_world 7 (- 100)))) = [Copy (- 100)]"
proof
  fix command
  let ?m = "Message True 7 (Some ''-1001234567890'') None (Some prompt_message)"
  let ?m' = "Message True 7 (Some ''abc'') None (Some prompt_message)"
  have f: "save_dump_channel_filter ?m" and f': "save_dump_channel_filter ?m'"
    by (simp_all add: save_dump_channel_filter_def filter_private_def filter_reply_def
        filter_text_def truthy_def)
  have n: "py_int (strip ''-1001234567890'') = Some (- 1001234567890)"
    by code_simp
  have e: "dump_handler ?m empty_world = (Inr (), empty_world)"
    by (simp add: dump_handler_def text_startswith_def startswith_def get_dump_channel_def
        find_one_def empty_world_def truthy_def)
  have g: "get_dump_channel 7 empty_world = Inr None"
    by (simp add: get_dump_channel_def find_one_def empty_world_def)
  have c: "emitted (bound_world 7 (- 100)) (snd (dump_handler ?m' (bound_world 7 (- 100))))
      = [Copy (- 100)]"
    by (simp add: dump_handler_def text_startswith_def startswith_def get_dump_channel_def
        find_one_def bound_world_def empty_world_def platform_defs)
  show "save_dump_channel_filter ?m \<and>
     py_int (strip ''-1001234567890'') = Some (- 1001234567890) \<and>
     on_message command ?m empty_world = (Inr (), empty_world) \<and>
     get_dump_channel 7 (snd (on_message command ?m empty_world)) = Inr None \<and>
     emitted (bound_world 7 (- 100)) (snd (on_message command ?m' (bound_world 7 (- 100))))
       = [Copy (- 100)]"
    using submission_taken_by_dump_handler [OF f, of command empty_world]
      submission_taken_by_dump_handler [OF f', of command "bound_world 7 (- 100)"]
      f n e g c
    by simp
qed

text \<open>
  Claim C9 expects a private \<open>/start\<close>, \<open>/settings\<close> or \<open>/health\<close> to run its command
  handler, which replies. What the code does with a private message whose text begins
  with \<open>/\<close>: the filter of \<open>dump_handler\<close>, registered first, accepts it, \<open>dump_handler\<close>
  returns at once, and no other handler is called. Nothing is issued and the world is as
  it was, which is the result of none of the three command handlers; this holds
  whatever the command filter of the library accepts.
\<close>

theorem command_taken_by_dump_handler:
  assumes "chat_private m" and "text_of m = Some t" and "startswith t ''/''"
  shows "dump_handler_filter m \<and>
         on_message command m w = (Inr (), w) \<and>
         emitted w (snd (on_message command m w)) = [] \<and>
         on_message command m w \<noteq> start_cmd m w \<and>
         on_message command m w \<noteq> settings_cmd m w \<and>
         on_message command m w \<noteq> health_check m w"
proof -
  have "t \<noteq> []"
    using assms(3) by (auto simp: startswith_def)
  then have "dump_handler_filter m"
    using assms(1,2) by (simp add: private_text_offered truthy_def)
  then show ?thesis
    using command_text_dropped [OF assms, of command w] command_handlers_not_called [of m w]
    by (simp add: emitted_self)
qed

theorem command_taken_by_dump_handler_witness:
  "\<forall>command.
     on_message command (Message True 7 (Some ''/start'') None None) empty_world
       = (Inr (), empty_world) \<and>
     on_message command (Message True 7 (Some ''/settings'') None None) (bound_world 7 (- 100))
       = (Inr (), bound_world 7 (- 100)) \<and>
     on_message command (Message True 7 (Some ''/health'') None None) down_world
       = (Inr (), down_world)"
proof
  fix command
  have p: "startswith ''/start'' ''/''" "startswith ''/settings'' ''/''"
    "startswith ''/health'' ''/''"
    by (simp_all add: startswith_def)
  show "on_message command (Message True 7 (Some ''/start'') None None) empty_world
       = (Inr (), empty_world) \<and>
     on_message command (Message True 7 (Some ''/settings'') None None) (bound_world 7 (- 100))
       = (Inr (), bound_world 7 (- 100)) \<and>
     on_message command (Message True 7 (Some ''/health'') None None) down_world
       = (Inr (), down_world)"
    using command_taken_by_dump_handler
        [of "Message True 7 (Some ''/start'') None None" "''/start''" command empty_world]
      command_taken_by_dump_handler
        [of "Message True 7 (Some ''/settings'') None None" "''/settings''" command
          "bound_world 7 (- 100)"]
      command_taken_by_dump_handler
        [of "Message True 7 (Some ''/health'') None None" "''/health''" command down_world]
      p
    by simp
qed

text \<open>
  Claim C7 expects both liveness surfaces to reflect whether the store can be reached.
  \<open>http_health\<close> does: status 200 with body \<open>OK\<close> when the ping returns, status 500 with
  body \<open>MongoDB connection failed\<close> when it raises. The command does not: a private
  message whose text begins with \<open>/health\<close> is accepted by the filter of \<open>dump_handler\<close>,
  registered first, which returns at once, so \<open>health_check\<close> is not called and nothing
  is issued, whether the store answers or not.
\<close>

theorem health_command_unanswered:
  assumes "chat_private m" and "text_of m = Some t" and "startswith t ''/health''"
  shows "on_message command m w = (Inr (), w) \<and>
         emitted w (snd (on_message command m w)) = [] \<and>
         on_message command m w \<noteq> health_check m w \<and>
         (store_error w = None \<longrightarrow> http_health w = \<lparr>status = 200, body = ''OK''\<rparr>) \<and>
         (store_error w = Some e \<longrightarrow>
            http_health w = \<lparr>status = 500, body = ''MongoDB connection failed''\<rparr>)"
  using command_text_dropped [OF assms(1,2) health_text_is_command [OF assms(3)], of command w]
    command_handlers_not_called(3) [of m w]
  by (simp add: emitted_self http_health_def ping_def)

theorem health_command_unanswered_witness:
  "\<forall>command.
     on_message command (Message True 7 (Some ''/health'') None None) empty_world
       = (Inr (), empty_world) \<and>
     http_health empty_world = \<lparr>status = 200, body = ''OK''\<rparr> \<and>
     on_message command (Message True 7 (Some ''/health'') None None) down_world
       = (Inr (), down_world) \<and>
     http_health down_world = \<lparr>status = 500, body = ''MongoDB connection failed''\<rparr>"
proof
  fix command
  have p: "startswith ''/health'' ''/health''"
    by (simp add: startswith_def)
  have u: "store_error empty_world = None"
    and d: "store_error down_world = Some (Exn OtherException ''connection refused'')"
    by (simp_all add: empty_world_def down_world_def)
  show "on_message command (Message True 7 (Some ''/health'') None None) empty_world
       = (Inr (), empty_world) \<and>
     http_health empty_world = \<lparr>status = 200, body = ''OK''\<rparr> \<and>
     on_message command (Message True 7 (Some ''/health'') None None) down_world
       = (Inr (), down_world) \<and>
     http_health down_world = \<lparr>status = 500, body = ''MongoDB connection failed''\<rparr>"
    using health_command_unanswered
        [of "Message True 7 (Some ''/health'') None None" "''/health''" command empty_world]
      health_command_unanswered
        [of "Message True 7 (Some ''/health'') None None" "''/health''" command down_world
          "Exn OtherException ''connection refused''"]
      p u d
    by simp
qed

text \<open>
  Claim C10 expects a submission \<open>0\<close> to be stored and a binding \<open>0\<close> to be treated
  everywhere as no binding: by the relay path and by the settings view. The relay path
  does so: for a sender whose binding is \<open>0\<close>, while the store answers, \<open>dump_handler\<close>
  returns with nothing issued on a message with text and issues exactly the
  configure-your-channel reply on a message without, with the same result and the same
  issued actions as in the world without that sender's document. The rest never happens:
  the submission \<open>0\<close> and the text \<open>/settings\<close> are private texts, which the filter of
  \<open>dump_handler\<close>, registered first, accepts, so the submission is not stored and the
  settings view is not shown.
\<close>

theorem zero_channel_unset_and_never_stored:
  assumes "store_error w = None"
  shows "(save_dump_channel_filter m \<and> text_of m = Some ''0'' \<longrightarrow>
            on_message command m w = dump_handler m w \<and>
            users (snd (on_message command m w)) = users w) \<and>
         (chat_private m \<and> text_of m = Some ''/settings'' \<longrightarrow>
            on_message command m w = (Inr (), w) \<and>
            on_message command m w \<noteq> settings_cmd m w) \<and>
         (get_dump_channel (from_user m) w = Inr (Some 0) \<longrightarrow>
            (dump_handler_filter m \<longrightarrow> on_message command m w = dump_handler m w) \<and>
            (truthy (text_of m) \<longrightarrow> dump_handler m w = (Inr (), w)) \<and>
            (\<not> truthy (text_of m) \<longrightarrow>
               emitted w (snd (dump_handler m w)) = [Reply no_dump_text None]) \<and>
            fst (dump_handler m w) = fst (dump_handler m (unbind (from_user m) w)) \<and>
            emitted w (snd (dump_handler m w)) =
              emitted (unbind (from_user m) w)
                (snd (dump_handler m (unbind (from_user m) w))) \<and>
            contains no_dump_text ''Use /settings to configure it.'')"
proof -
  have a: "on_message command m w = dump_handler m w \<and>
      users (snd (on_message command m w)) = users w"
    if "save_dump_channel_filter m"
    using on_message_dump_first [OF submission_offered [OF that], of command w]
      dump_handler_users [of m w]
    by simp
  have b: "on_message command m w = (Inr (), w) \<and> on_message command m w \<noteq> settings_cmd m w"
    if "chat_private m" "text_of m = Some ''/settings''"
  proof -
    have "startswith ''/settings'' ''/''"
      by (simp add: startswith_def)
    then show ?thesis
      using command_text_dropped [OF that, of command w] command_handlers_not_called(2) [of m w]
      by simp
  qed
  have c: "(dump_handler_filter m \<longrightarrow> on_message command m w = dump_handler m w) \<and>
      (truthy (text_of m) \<longrightarrow> dump_handler m w = (Inr (), w)) \<and>
      (\<not> truthy (text_of m) \<longrightarrow>
         emitted w (snd (dump_handler m w)) = [Reply no_dump_text None]) \<and>
      fst (dump_handler m w) = fst (dump_handler m (unbind (from_user m) w)) \<and>
      emitted w (snd (dump_handler m w)) =
        emitted (unbind (from_user m) w) (snd (dump_handler m (unbind (from_user m) w))) \<and>
      contains no_dump_text ''Use /settings to configure it.''"
    if g: "get_dump_channel (from_user m) w = Inr (Some 0)"
    using dump_handler_unset_text [OF g] dump_handler_unset_content [OF g]
      dump_handler_same_as_unbound [OF assms g] on_message_dump_first [of m command w]
      no_dump_text_pinned
    by (simp add: reply_text_effect)
  show ?thesis
    using a b c by blast
qed

theorem zero_channel_unset_and_never_stored_witness:
  "\<forall>command.
     py_int (strip ''0'') = Some 0 \<and>
     on_message command (Message True 7 (Some ''0'') None (Some prompt_message)) empty_world
       = (Inr (), empty_world) \<and>
     get_dump_channel 7
       (snd (on_message command (Message True 7 (Some ''0'') None (Some prompt_message))
          empty_world)) = Inr None \<and>
     on_message command (Message True 7 (Some ''/settings'') None None) (bound_world 7 0)
       = (Inr (), bound_world 7 0) \<and>
     on_message command (Message True 7 (Some ''hello'') None None) (bound_world 7 0)
       = (Inr (), bound_world 7 0) \<and>
     emitted (bound_world 7 0)
       (snd (on_message command (Message True 7 None (Some Photo) None) (bound_world 7 0)))
       = [Reply no_dump_text None]"
proof
  fix command
  let ?z = "Message True 7 (Some ''0'') None (Some prompt_message)"
  have s: "store_error empty_world = None" and s': "store_error (bound_world 7 0) = None"
    by (simp_all add: empty_world_def bound_world_def)
  have n: "py_int (strip ''0'') = Some 0"
    by code_simp
  have f: "save_dump_channel_filter ?z"
    by (simp add: save_dump_channel_filter_def filter_private_def filter_reply_def
        filter_text_def truthy_def)
  have e: "dump_handler ?z empty_world = (Inr (), empty_world)"
    by (simp add: dump_handler_def text_startswith_def startswith_def get_dump_channel_def
        find_one_def empty_world_def truthy_def)
  have g0: "get_dump_channel 7 empty_world = Inr None"
    by (simp add: get_dump_channel_def find_one_def empty_world_def)
  have g: "get_dump_channel 7 (bound_world 7 0) = Inr (Some 0)"
    by (simp add: get_dump_channel_def find_one_def bound_world_def empty_world_def)
  have d: "dump_handler_filter (Message True 7 (Some ''hello'') None None)"
    and d': "dump_handler_filter (Message True 7 None (Some Photo) None)"
    by (simp_all add: dump_handler_filter_def filter_private_def filter_text_def
        filter_media_def truthy_def)
  have t: "truthy (Some ''hello'')" and t': "\<not> truthy None"
    by (simp_all add: truthy_def)
  show "py_int (strip ''0'') = Some 0 \<and>
     on_message command ?z empty_world = (Inr (), empty_world) \<and>
     get_dump_channel 7 (snd (on_message command ?z empty_world)) = Inr None \<and>
     on_message command (Message True 7 (Some ''/settings'') None None) (bound_world 7 0)
       = (Inr (), bound_world 7 0) \<and>
     on_message command (Message True 7 (Some ''hello'') None None) (bound_world 7 0)
       = (Inr (), bound_world 7 0) \<and>
     emitted (bound_world 7 0)
       (snd (on_message command (Message True 7 None (Some Photo) None) (bound_world 7 0)))
       = [Reply no_dump_text None]"
    using zero_channel_unset_and_never_stored [OF s, of ?z command]
      zero_channel_unset_and_never_stored
        [OF s', of "Message True 7 (Some ''/settings'') None None" command]
      zero_channel_unset_and_never_stored
        [OF s', of "Message True 7 (Some ''hello'') None None" command]
      zero_channel_unset_and_never_stored
        [OF s', of "Message True 7 None (Some Photo) None" command]
      n f e g0 g d d' t t'
    by simp
qed

text \<open>
  Claim C4 says that \<open>set\<close> followed by \<open>get\<close> returns the value set, for every channel
  id. It fails for a channel id that does not fit in 8 bytes: the store refuses the
  write with \<open>OverflowError\<close>, and \<open>get\<close> returns what it returned before.
\<close>

theorem set_beyond_8_bytes_refused:
  "fst (set_dump_channel 7 9223372036854775808 empty_world)
     = Inl (Exn OverflowError ''MongoDB can only handle up to 8-byte ints'') \<and>
   get_dump_channel 7 (snd (set_dump_channel 7 9223372036854775808 empty_world)) = Inr None"
  by (simp add: set_dump_channel_def update_one_def int64_def get_dump_channel_def
      find_one_def empty_world_def)

text \<open>
  Claim C4, as the code has it. While the store answers, and for channel ids \<open>A\<close> and
  \<open>B\<close> that fit in a signed 8-byte integer: \<open>set_dump_channel u A\<close> followed by
  \<open>get_dump_channel u\<close> returns \<open>A\<close>; after \<open>set_dump_channel u A\<close> and then
  \<open>set_dump_channel u B\<close> it returns \<open>B\<close>, and the collection is the one that the
  second write alone would have left: the binding is overwritten in place. A channel id
  \<open>C\<close> outside that range is refused with \<open>OverflowError\<close> and the world is left as it
  was.
\<close>

theorem set_get_last_write_wins:
  assumes "store_error w = None" and "int64 A" and "int64 B"
  shows "get_dump_channel u (snd (set_dump_channel u A w)) = Inr (Some A) \<and>
         get_dump_channel u (snd (set_dump_channel u B (snd (set_dump_channel u A w))))
           = Inr (Some B) \<and>
         users (snd (set_dump_channel u B (snd (set_dump_channel u A w))))
           = users (snd (set_dump_channel u B w)) \<and>
         (\<not> int64 C \<longrightarrow>
            set_dump_channel u C w =
              (Inl (Exn OverflowError ''MongoDB can only handle up to 8-byte ints''), w))"
  using assms
  by (simp add: set_dump_channel_up get_dump_channel_up set_dump_channel_def update_one_def)

theorem set_get_last_write_wins_witness:
  "store_error empty_world = None \<and> int64 (- 100) \<and> int64 (- 200) \<and>
   get_dump_channel 7 (snd (set_dump_channel 7 (- 100) empty_world)) = Inr (Some (- 100)) \<and>
   get_dump_channel 7
     (snd (set_dump_channel 7 (- 200) (snd (set_dump_channel 7 (- 100) empty_world))))
     = Inr (Some (- 200)) \<and>
   \<not> int64 9223372036854775808 \<and>
   set_dump_channel 7 9223372036854775808 empty_world =
     (Inl (Exn OverflowError ''MongoDB can only handle up to 8-byte ints''), empty_world)"
proof -
  have h: "store_error empty_world = None"
    by (simp add: empty_world_def)
  have a: "int64 (- 100)" and b: "int64 (- 200)" and c: "\<not> int64 9223372036854775808"
    by (simp_all add: int64_def)
  show ?thesis
    using h a b c set_get_last_write_wins [OF h a b, of 7 9223372036854775808] by simp
qed

end
